theory Spec2Isabelle
  imports Complex_Main "HOL-Library.Word"
begin

unbundle bit_operations_syntax

section \<open>Numbers and vectors\<close>

text \<open>
  The shaders compute on \<open>f32\<close> and \<open>u32\<close>.  A \<open>u32\<close> is a 32-bit word, so that
  the wrap-around of the frame counter and of the random generator is part of the model.
  An \<open>f32\<close> is modelled by a real number: rounding, infinities and NaN are not
  represented, and the conversion \<open>f32(u)\<close> of an unsigned integer is its exact value.
\<close>

type_synonym u32 = "32 word"

definition f32_of_u32 :: "u32 \<Rightarrow> real" where
  "f32_of_u32 w = real (unat w)"

datatype vec3 = Vec3 (vx: real) (vy: real) (vz: real)

datatype vec4u = Vec4u (ux: u32) (uy: u32) (uz: u32) (uw: u32)

definition splat :: "real \<Rightarrow> vec3" where
  "splat a = Vec3 a a a"

definition vadd :: "vec3 \<Rightarrow> vec3 \<Rightarrow> vec3" where
  "vadd a b = Vec3 (vx a + vx b) (vy a + vy b) (vz a + vz b)"

definition vsub :: "vec3 \<Rightarrow> vec3 \<Rightarrow> vec3" where
  "vsub a b = Vec3 (vx a - vx b) (vy a - vy b) (vz a - vz b)"

definition vneg :: "vec3 \<Rightarrow> vec3" where
  "vneg a = Vec3 (- vx a) (- vy a) (- vz a)"

definition vmul :: "vec3 \<Rightarrow> vec3 \<Rightarrow> vec3" where
  "vmul a b = Vec3 (vx a * vx b) (vy a * vy b) (vz a * vz b)"

definition vdiv :: "vec3 \<Rightarrow> vec3 \<Rightarrow> vec3" where
  "vdiv a b = Vec3 (vx a / vx b) (vy a / vy b) (vz a / vz b)"

definition smul :: "vec3 \<Rightarrow> real \<Rightarrow> vec3" where
  "smul a k = Vec3 (vx a * k) (vy a * k) (vz a * k)"

definition sdiv :: "vec3 \<Rightarrow> real \<Rightarrow> vec3" where
  "sdiv a k = Vec3 (vx a / k) (vy a / k) (vz a / k)"

definition dot :: "vec3 \<Rightarrow> vec3 \<Rightarrow> real" where
  "dot a b = vx a * vx b + vy a * vy b + vz a * vz b"

definition cross :: "vec3 \<Rightarrow> vec3 \<Rightarrow> vec3" where
  "cross a b = Vec3 (vy a * vz b - vz a * vy b)
                    (vz a * vx b - vx a * vz b)
                    (vx a * vy b - vy a * vx b)"

definition length_v :: "vec3 \<Rightarrow> real" where
  "length_v a = sqrt (dot a a)"

definition normalize_v :: "vec3 \<Rightarrow> vec3" where
  "normalize_v a = sdiv a (length_v a)"

definition reflect :: "vec3 \<Rightarrow> vec3 \<Rightarrow> vec3" where
  \<comment> \<open>WGSL builtin: \<open>e1 - 2 * dot(e2, e1) * e2\<close>\<close>
  "reflect e1 e2 = vsub e1 (smul e2 (2 * dot e2 e1))"

definition vexp :: "vec3 \<Rightarrow> vec3" where
  "vexp a = Vec3 (exp (vx a)) (exp (vy a)) (exp (vz a))"

definition vidx :: "vec3 \<Rightarrow> u32 \<Rightarrow> real" where
  \<comment> \<open>component access \<open>v[a]\<close>\<close>
  "vidx v a = (if a = 0 then vx v else if a = 1 then vy v else vz v)"

section \<open>Data of the path tracer (week08/part3/shader.wgsl)\<close>

record Ray =
  origin :: vec3
  direction :: vec3
  tmin :: real
  tmax :: real

record HitInfo =
  has_hit :: bool
  distance :: real
  position :: vec3
  normal :: vec3
  diffuse :: vec3
  emission :: vec3
  specular :: vec3
  ior1_over_ior2 :: real
  shininess :: real
  shader :: u32
  triangle_idx :: u32
  emit :: bool
  throughput :: vec3
  extinction :: vec3

datatype Material = Material (mat_emission: vec3) (mat_diffuse: vec3)

datatype VertexInfo = VertexInfo (v_position: vec3) (v_normal: vec3)

datatype Aabb = Aabb (aabb_min: vec3) (aabb_max: vec3)

datatype Light = Light (L_i: vec3) (w_i: vec3) (l_dist: real)

text \<open>
  The bind group.  A storage buffer is a total function of its \<open>u32\<close> index: a WGSL
  read out of bounds does not trap and yields some element, and the host writes only
  indices that are in range.  \<open>numLights\<close> is \<open>arrayLength(&lightIndices)\<close>;
  \<open>triangle_shader\<close> and \<open>enable_background\<close> are the uniforms that the
  intersection and the bounce loop read.
\<close>

record Scene =
  vInfo :: "u32 \<Rightarrow> VertexInfo"
  meshFaces :: "u32 \<Rightarrow> vec4u"
  materials :: "u32 \<Rightarrow> Material"
  aabb :: Aabb
  treeIds :: "u32 \<Rightarrow> u32"
  bspTree :: "u32 \<Rightarrow> vec4u"
  bspPlanes :: "u32 \<Rightarrow> real"
  lightIndices :: "u32 \<Rightarrow> u32"
  numLights :: u32
  triangle_shader :: u32
  enable_background :: u32

definition MAX_LEVEL :: nat where
  "MAX_LEVEL = 20"

definition BSP_LEAF :: u32 where
  "BSP_LEAF = 3"

definition Pi :: real where
  "Pi = 31415926535 / 10 ^ 10"

definition default_hitinfo :: HitInfo where
  "default_hitinfo = \<lparr> has_hit = False, distance = 0, position = splat 0, normal = splat 0,
     diffuse = splat 0, emission = splat 0, specular = splat 0, ior1_over_ior2 = 0,
     shininess = 0, shader = 0, triangle_idx = 0, emit = True, throughput = splat 1,
     extinction = splat 0 \<rparr>"

section \<open>Ray-triangle intersection\<close>

text \<open>
  \<open>intersect_triangle\<close> has the same text in week08/part3/shader.wgsl and in
  unnamed/part_002.  The values the function binds with \<open>let\<close> are named
  here, so that statements about the function can speak of them.
\<close>

definition tri_e0 :: "Scene \<Rightarrow> u32 \<Rightarrow> vec3" where
  "tri_e0 sc i = (let face = meshFaces sc i; v0 = v_position (vInfo sc (ux face))
                  in vsub (v_position (vInfo sc (uy face))) v0)"

definition tri_e1 :: "Scene \<Rightarrow> u32 \<Rightarrow> vec3" where
  "tri_e1 sc i = (let face = meshFaces sc i; v0 = v_position (vInfo sc (ux face))
                  in vsub (v_position (vInfo sc (uz face))) v0)"

definition tri_a :: "Scene \<Rightarrow> Ray \<Rightarrow> u32 \<Rightarrow> vec3" where
  "tri_a sc r i = vsub (v_position (vInfo sc (ux (meshFaces sc i)))) (origin r)"

definition tri_q :: "Scene \<Rightarrow> Ray \<Rightarrow> u32 \<Rightarrow> real" where
  "tri_q sc r i = dot (direction r) (cross (tri_e0 sc i) (tri_e1 sc i))"

definition tri_t :: "Scene \<Rightarrow> Ray \<Rightarrow> u32 \<Rightarrow> real" where
  "tri_t sc r i = dot (tri_a sc r i) (cross (tri_e0 sc i) (tri_e1 sc i)) / tri_q sc r i"

definition tri_beta :: "Scene \<Rightarrow> Ray \<Rightarrow> u32 \<Rightarrow> real" where
  "tri_beta sc r i = dot (cross (tri_a sc r i) (direction r)) (tri_e1 sc i) / tri_q sc r i"

definition tri_gamma :: "Scene \<Rightarrow> Ray \<Rightarrow> u32 \<Rightarrow> real" where
  "tri_gamma sc r i = - dot (cross (tri_a sc r i) (direction r)) (tri_e0 sc i) / tri_q sc r i"

definition intersect_triangle :: "Scene \<Rightarrow> Ray \<Rightarrow> HitInfo \<Rightarrow> u32 \<Rightarrow> bool \<times> HitInfo" where
  "intersect_triangle sc r hit i =
     (let face = meshFaces sc i;
          q = tri_q sc r i
      in if \<bar>q\<bar> < 1 / 10 ^ 8 then (False, hit)
         else let t = tri_t sc r i
           in if t < tmin r \<or> t > tmax r then (False, hit)
              else let beta = tri_beta sc r i; gamma = tri_gamma sc r i
                in if beta < 0 \<or> gamma < 0 \<or> beta + gamma > 1 then (False, hit)
                   else (True, hit\<lparr> has_hit := True,
                           position := vadd (origin r) (smul (direction r) t),
                           distance := t,
                           normal := normalize_v
                             (vadd (vadd (smul (v_normal (vInfo sc (ux face))) (1 - beta - gamma))
                                         (smul (v_normal (vInfo sc (uy face))) beta))
                                   (smul (v_normal (vInfo sc (uz face))) gamma)) \<rparr>))"

section \<open>Random numbers\<close>

text \<open>
  \<open>mcg31\<close> and \<open>rnd\<close> update the generator state through a pointer; here they return
  the new state beside the value.
\<close>

definition mcg31 :: "u32 \<Rightarrow> u32" where
  "mcg31 prev = (1977654935 * prev) AND 0x7FFFFFFF"

definition rnd :: "u32 \<Rightarrow> real \<times> u32" where
  "rnd prev = (let p = mcg31 prev in (f32_of_u32 p / f32_of_u32 0x80000000, p))"

definition u32_of_f32 :: "real \<Rightarrow> u32" where
  \<comment> \<open>the conversion \<open>u32(e)\<close> of an \<open>f32\<close>: truncation, clamped to the range of \<open>u32\<close>\<close>
  "u32_of_f32 x = (if x < 0 then 0 else if x \<ge> 2 ^ 32 then 0xFFFFFFFF
                   else word_of_nat (nat \<lfloor>x\<rfloor>))"

section \<open>Scene intersection (week08/part3/shader.wgsl)\<close>

definition intersect_min_max :: "Scene \<Rightarrow> Ray \<Rightarrow> bool \<times> Ray" where
  "intersect_min_max sc r =
     (let p1 = vdiv (vsub (aabb_min (aabb sc)) (origin r)) (direction r);
          p2 = vdiv (vsub (aabb_max (aabb sc)) (origin r)) (direction r);
          t_min = max (max (min (vx p1) (vx p2)) (min (vy p1) (vy p2))) (min (vz p1) (vz p2))
                  - 1 / 10 ^ 3;
          t_max = min (min (max (vx p1) (vx p2)) (max (vy p1) (vy p2))) (max (vz p1) (vz p2))
                  + 1 / 10 ^ 3
      in if t_min > t_max \<or> t_min > tmax r \<or> t_max < tmin r then (False, r)
         else (True, r\<lparr> tmin := max t_min (tmin r), tmax := min t_max (tmax r) \<rparr>))"

text \<open>
  The loop over the triangles of a BSP leaf: one step for the index \<open>j\<close>, folded over
  \<open>0 .. count - 1\<close>.  The state is the flag \<open>found\<close>, the ray and the hit record.
\<close>

definition leaf_step :: "Scene \<Rightarrow> u32 \<Rightarrow> nat \<Rightarrow> bool \<times> Ray \<times> HitInfo \<Rightarrow> bool \<times> Ray \<times> HitInfo" where
  "leaf_step sc id0 j s =
     (case s of (found, r, hit) \<Rightarrow>
        let idx = treeIds sc (id0 + word_of_nat j)
        in case intersect_triangle sc r hit idx of
             (True, hit') \<Rightarrow> (True, r\<lparr> tmax := distance hit' \<rparr>, hit'\<lparr> triangle_idx := idx \<rparr>)
           | (False, hit') \<Rightarrow> (found, r, hit'))"

definition leaf_loop :: "Scene \<Rightarrow> u32 \<Rightarrow> u32 \<Rightarrow> Ray \<Rightarrow> HitInfo \<Rightarrow> bool \<times> Ray \<times> HitInfo" where
  "leaf_loop sc id0 count r hit = fold (leaf_step sc id0) [0 ..< unat count] (False, r, hit)"

text \<open>
  The traversal loop of \<open>intersect_trimesh\<close>.  The two private arrays \<open>branch_node\<close> and
  \<open>branch_ray\<close> with the counter \<open>branch_lvl\<close> are a stack, modelled as a list of
  (saved \<open>i\<close>, far node, saved \<open>tmin\<close>, saved \<open>tmax\<close>), newest first.  After a pop the
  \<open>continue\<close> runs the loop's increment, so the loop goes on at the saved \<open>i\<close> plus one.
  (The arrays hold \<open>MAX_LEVEL\<close> entries; only a push at \<open>i = MAX_LEVEL\<close> can pass their
  end, and the loop ends right after it without reading the stack.)
\<close>

function trimesh_loop ::
  "Scene \<Rightarrow> nat \<Rightarrow> u32 \<Rightarrow> (nat \<times> u32 \<times> real \<times> real) list \<Rightarrow> Ray \<Rightarrow> HitInfo
   \<Rightarrow> bool \<times> Ray \<times> HitInfo" where
  "trimesh_loop sc i node stack r hit =
     (if i \<le> MAX_LEVEL then
        (let tree_node = bspTree sc node; axis_leaf = ux tree_node AND 3
         in if axis_leaf = BSP_LEAF then
              (let count = drop_bit 2 (ux tree_node); id0 = uy tree_node;
                   res = leaf_loop sc id0 count r hit
               in if fst res then (True, snd res)
                  else (case stack of
                          [] \<Rightarrow> (False, snd res)
                        | b # rest \<Rightarrow>
                            trimesh_loop sc (Suc (fst b)) (fst (snd b)) rest
                              ((fst (snd res))\<lparr> tmin := fst (snd (snd b)),
                                                 tmax := snd (snd (snd b)) \<rparr>)
                              (snd (snd res))))
            else
              (let axis_dir = vidx (direction r) axis_leaf;
                   near = (if axis_dir \<ge> 0 then uz tree_node else uw tree_node);
                   far = (if axis_dir \<ge> 0 then uw tree_node else uz tree_node);
                   t_split = (bspPlanes sc node - vidx (origin r) axis_leaf)
                             / (if \<bar>axis_dir\<bar> < 1 / 10 ^ 8 then 1 / 10 ^ 8 else axis_dir)
               in if t_split \<ge> tmax r then trimesh_loop sc (Suc i) near stack r hit
                  else if t_split \<le> tmin r then trimesh_loop sc (Suc i) far stack r hit
                  else trimesh_loop sc (Suc i) near ((i, far, t_split, tmax r) # stack)
                         (r\<lparr> tmax := t_split \<rparr>) hit))
      else (False, r, hit))"
  by pat_completeness auto
termination
proof -
  have pow: "(3::nat) ^ (21 - i) = 3 * 3 ^ (20 - i)" if "i \<le> 20" for i
  proof -
    from that have "21 - i = Suc (20 - i)" by simp
    then show ?thesis by simp
  qed
  show ?thesis
    by (relation "measure (\<lambda>(sc, i, node, stack, r, hit).
          3 ^ (21 - i) + sum_list (map (\<lambda>b. 3 ^ (21 - Suc (fst b))) stack))")
       (auto simp: MAX_LEVEL_def pow)
qed

declare trimesh_loop.simps [simp del]

definition intersect_trimesh :: "Scene \<Rightarrow> Ray \<Rightarrow> HitInfo \<Rightarrow> bool \<times> Ray \<times> HitInfo" where
  "intersect_trimesh sc r hit = trimesh_loop sc 0 0 [] r hit"

definition intersect_sphere :: "Ray \<Rightarrow> HitInfo \<Rightarrow> vec3 \<Rightarrow> real \<Rightarrow> bool \<times> HitInfo" where
  "intersect_sphere r hit center radius =
     (let oc = vsub (origin r) center;
          bhalf = dot oc (direction r);
          discriminant = bhalf * bhalf - (dot oc oc - radius * radius)
      in if discriminant < 1 / 10 ^ 8 then (False, hit)
         else let s_disc = sqrt discriminant;
                  t0 = - bhalf - s_disc;
                  t = (if t0 < tmin r \<or> t0 > tmax r then - bhalf + s_disc else t0)
           in if t < tmin r \<or> t > tmax r then (False, hit)
              else let pos = vadd (origin r) (smul (direction r) t)
                in (True, hit\<lparr> has_hit := True, distance := t, position := pos,
                                normal := normalize_v (vsub pos center) \<rparr>))"

definition intersect_scene :: "Scene \<Rightarrow> Ray \<Rightarrow> HitInfo \<Rightarrow> bool \<times> Ray \<times> HitInfo" where
  "intersect_scene sc r hit =
     (case intersect_min_max sc r of
        (False, _) \<Rightarrow> (False, r, hit)
      | (True, r0) \<Rightarrow>
          let (r1, hit1) =
                (case intersect_sphere r0 hit (Vec3 420 90 370) 90 of
                   (True, h) \<Rightarrow> (r0\<lparr> tmax := distance h \<rparr>, h\<lparr> shader := 3 \<rparr>)
                 | (False, h) \<Rightarrow> (r0, h));
              (r2, hit2) =
                (case intersect_sphere r1 hit1 (Vec3 130 90 250) 90 of
                   (True, h) \<Rightarrow> (r1\<lparr> tmax := distance h \<rparr>,
                                  h\<lparr> ior1_over_ior2 := 1 / (15 / 10), shader := 6,
                                     extinction := Vec3 (1 / 100) 1 0 \<rparr>)
                 | (False, h) \<Rightarrow> (r1, h));
              (r3, hit3) =
                (case intersect_trimesh sc r2 hit2 of
                   (True, r', h) \<Rightarrow>
                     let mat = materials sc (uw (meshFaces sc (triangle_idx h)))
                     in (r'\<lparr> tmax := distance h \<rparr>,
                         h\<lparr> diffuse := mat_diffuse mat, emission := mat_emission mat,
                            shader := triangle_shader sc \<rparr>)
                 | (False, r', h) \<Rightarrow> (r', h))
          in (has_hit hit3, r3, hit3))"

section \<open>Shading (week08/part3/shader.wgsl)\<close>

text \<open>
  A shading function changes the ray, the hit record and the generator state through
  pointers and returns a colour; the model returns all four.
\<close>

definition fresnel_R :: "real \<Rightarrow> real \<Rightarrow> real \<Rightarrow> real" where
  "fresnel_R costhetai costhetat ior_i_over_t =
     (let r_per = (ior_i_over_t * costhetai - costhetat) / (ior_i_over_t * costhetai + costhetat);
          r_par = (costhetai - ior_i_over_t * costhetat) / (costhetai + ior_i_over_t * costhetat)
      in (1 / 2) * (r_per * r_per + r_par * r_par))"

definition rotate_to_normal :: "vec3 \<Rightarrow> vec3 \<Rightarrow> vec3" where
  "rotate_to_normal n v =
     (let s = sgn (vz n + 1 / 10 ^ 16);
          a = - 1 / (1 + \<bar>vz n\<bar>);
          b = vx n * vy n * a
      in vadd (vadd (smul (Vec3 (1 + vx n * vx n * a) b (- s * vx n)) (vx v))
                    (smul (Vec3 (s * b) (s * (1 + vy n * vy n * a)) (- vy n)) (vy v)))
              (smul n (vz v)))"

definition sample_cosine_weighted_direction :: "vec3 \<Rightarrow> u32 \<Rightarrow> vec3 \<times> u32" where
  "sample_cosine_weighted_direction n t =
     (let (r1, t1) = rnd t; (r2, t2) = rnd t1;
          theta = arccos (sqrt (1 - r1));
          phi = 2 * Pi * r2
      in (rotate_to_normal n (Vec3 (sin theta * cos phi) (sin theta * sin phi) (cos theta)), t2))"

text \<open>
  The values that \<open>sample_area_light\<close> binds, as functions of the generator state on
  entry: the position in \<open>lightIndices\<close> that is picked, the barycentric weights of
  the sampled point, the point itself and the area of the light's triangle.
\<close>

definition light_pick :: "Scene \<Rightarrow> u32 \<Rightarrow> u32" where
  "light_pick sc t = u32_of_f32 (fst (rnd t) * f32_of_u32 (numLights sc))"

definition light_weights :: "u32 \<Rightarrow> real \<times> real \<times> real" where
  "light_weights t =
     (let (x0, t1) = rnd t; (r1, t2) = rnd t1; (r2, t3) = rnd t2
      in (1 - sqrt r1, (1 - r2) * sqrt r1, r2 * sqrt r1))"

definition light_point :: "Scene \<Rightarrow> u32 \<Rightarrow> vec3" where
  "light_point sc t =
     (let face = meshFaces sc (lightIndices sc (light_pick sc t));
          v0 = v_position (vInfo sc (ux face));
          v1 = v_position (vInfo sc (uy face));
          v2 = v_position (vInfo sc (uz face));
          (alpha, beta, gamma) = light_weights t
      in vadd (vadd (smul v0 alpha) (smul v1 beta)) (smul v2 gamma))"

definition light_area :: "Scene \<Rightarrow> u32 \<Rightarrow> real" where
  "light_area sc t =
     (let face = meshFaces sc (lightIndices sc (light_pick sc t));
          v0 = v_position (vInfo sc (ux face));
          v1 = v_position (vInfo sc (uy face));
          v2 = v_position (vInfo sc (uz face))
      in length_v (cross (vsub v1 v0) (vsub v2 v0)) * (1 / 2))"

definition light_normal :: "Scene \<Rightarrow> u32 \<Rightarrow> vec3" where
  "light_normal sc t =
     (let face = meshFaces sc (lightIndices sc (light_pick sc t));
          (alpha, beta, gamma) = light_weights t
      in normalize_v
           (vadd (vadd (smul (v_normal (vInfo sc (ux face))) alpha)
                       (smul (v_normal (vInfo sc (uy face))) beta))
                 (smul (v_normal (vInfo sc (uz face))) gamma)))"

definition sample_area_light :: "Scene \<Rightarrow> vec3 \<Rightarrow> u32 \<Rightarrow> Light \<times> u32" where
  "sample_area_light sc pos t =
     (if numLights sc = 0 then (Light (splat 0) (splat 0) 0, t)
      else
        let l_idx = lightIndices sc (light_pick sc t);
            light_pos = light_point sc t;
            n_light = light_normal sc t;
            w = normalize_v (vsub light_pos pos);
            d = length_v (vsub light_pos pos);
            Li = smul (smul (smul (mat_emission (materials sc (uw (meshFaces sc l_idx))))
                                  (max (dot (vneg w) n_light) 0))
                            (light_area sc t))
                      (f32_of_u32 (numLights sc))
        in (Light Li w d, snd (rnd (snd (rnd (snd (rnd t)))))))"

definition shadow_ray_of :: "HitInfo \<Rightarrow> Light \<Rightarrow> Ray" where
  "shadow_ray_of hit light =
     \<lparr> origin = position hit, direction = w_i light, tmin = 1 / 10 ^ 3,
       tmax = l_dist light - 1 / 10 ^ 3 \<rparr>"

definition direct_term :: "HitInfo \<Rightarrow> Light \<Rightarrow> vec3" where
  "direct_term hit light =
     smul (vmul (sdiv (diffuse hit) Pi) (L_i light)) (max (dot (normal hit) (w_i light)) 0)"

definition lam_Pd :: "HitInfo \<Rightarrow> real" where
  \<comment> \<open>the survival probability: the average channel of throughput times diffuse\<close>
  "lam_Pd hit = (let th = vmul (throughput hit) (diffuse hit) in (vx th + vy th + vz th) / 3)"


definition lambertian :: "Scene \<Rightarrow> Ray \<Rightarrow> HitInfo \<Rightarrow> u32 \<Rightarrow> vec3 \<times> Ray \<times> HitInfo \<times> u32" where
  "lambertian sc r hit t =
     (let (light, t1) = sample_area_light sc (position hit) t;
          shadow_ray = shadow_ray_of hit light;
          shadow_hit = default_hitinfo;
          V = (\<not> fst (intersect_scene sc shadow_ray shadow_hit));
          direct = (if V then direct_term hit light else splat 0);
          hit1 = hit\<lparr> throughput := vmul (throughput hit) (diffuse hit) \<rparr>;
          Pd = lam_Pd hit;
          (x, t2) = rnd t1
      in if x < Pd then
           (let hit2 = hit1\<lparr> throughput := sdiv (throughput hit1) Pd \<rparr>;
                (d, t3) = sample_cosine_weighted_direction (normal hit2) t2;
                r' = r\<lparr> origin := position hit2, direction := d,
                          tmin := 1 / 10 ^ 3, tmax := 10 ^ 6 \<rparr>
            in (vadd direct (emission hit2), r', hit2\<lparr> emit := False, has_hit := False \<rparr>, t3))
         else (vadd direct (emission hit1), r, hit1, t2))"

definition mirror :: "Ray \<Rightarrow> HitInfo \<Rightarrow> vec3 \<times> Ray \<times> HitInfo" where
  "mirror r hit =
     (let hit' = hit\<lparr> emit := True, has_hit := False \<rparr>
      in (splat 0,
          r\<lparr> origin := position hit', direction := reflect (direction r) (normal hit'),
             tmin := 1 / 10 ^ 3, tmax := 10 ^ 6 \<rparr>,
          hit'))"

text \<open>
  The values \<open>transparent\<close> computes before it branches: the cosine of incidence
  against the stored normal, the ratio of indices after the swap for an exiting ray, the
  refraction discriminant \<open>sin2thetat\<close>, and the transmittance with its average channel.
\<close>

definition costhetai0 :: "Ray \<Rightarrow> HitInfo \<Rightarrow> real" where
  "costhetai0 r hit = dot (vneg (direction r)) (normal hit)"

definition eta_of :: "Ray \<Rightarrow> HitInfo \<Rightarrow> real" where
  "eta_of r hit = (if costhetai0 r hit < 0 then 1 / ior1_over_ior2 hit else ior1_over_ior2 hit)"

definition sin2thetat :: "Ray \<Rightarrow> HitInfo \<Rightarrow> real" where
  "sin2thetat r hit =
     (let costhetai = (if costhetai0 r hit < 0 then - costhetai0 r hit else costhetai0 r hit)
      in (eta_of r hit * eta_of r hit) * (1 - costhetai * costhetai))"

definition absorb_Tr :: "HitInfo \<Rightarrow> vec3" where
  "absorb_Tr hit = vexp (smul (vneg (extinction hit)) (distance hit))"

definition absorb_prob :: "HitInfo \<Rightarrow> real" where
  "absorb_prob hit = (let Tr = absorb_Tr hit in (vx Tr + vy Tr + vz Tr) / 3)"

definition transparent_refract :: "Ray \<Rightarrow> HitInfo \<Rightarrow> u32 \<Rightarrow> vec3 \<times> Ray \<times> HitInfo \<times> u32" where
  \<comment> \<open>the function from the line that computes \<open>sin2thetat\<close> to its end\<close>
  "transparent_refract r hit t =
     (let eta = eta_of r hit;
          n = (if costhetai0 r hit < 0 then vneg (normal hit) else normal hit);
          costhetai = (if costhetai0 r hit < 0 then - costhetai0 r hit else costhetai0 r hit)
      in if sin2thetat r hit > 1 then (case mirror r hit of (c, r', hit') \<Rightarrow> (c, r', hit', t))
         else
           let costhetat = sqrt (1 - sin2thetat r hit);
               R = fresnel_R costhetai costhetat eta;
               hit' = hit\<lparr> has_hit := False \<rparr>;
               r0 = r\<lparr> origin := position hit', tmin := 1 / 10 ^ 3, tmax := 10 ^ 6 \<rparr>;
               (x, t') = rnd t
           in if x < R
              then (splat 0, r0\<lparr> direction := reflect (direction r0) (normal hit') \<rparr>, hit', t')
              else (splat 0,
                    r0\<lparr> direction := normalize_v
                          (vsub (smul (vsub (smul n costhetai) (vneg (direction r0))) eta)
                                (smul n costhetat)) \<rparr>,
                    hit', t'))"

definition transparent :: "Ray \<Rightarrow> HitInfo \<Rightarrow> u32 \<Rightarrow> vec3 \<times> Ray \<times> HitInfo \<times> u32" where
  "transparent r hit0 t =
     (let hit = hit0\<lparr> emit := True \<rparr>
      in if costhetai0 r hit < 0 then
           (let Tr = absorb_Tr hit;
                prob = absorb_prob hit;
                (x, t1) = rnd t
            in if x < prob
               then transparent_refract r
                      (hit\<lparr> throughput := vmul (throughput hit) (sdiv Tr prob) \<rparr>) t1
               else (splat 0, r, hit, t1))
         else transparent_refract r hit t)"

definition shade :: "Scene \<Rightarrow> Ray \<Rightarrow> HitInfo \<Rightarrow> u32 \<Rightarrow> vec3 \<times> Ray \<times> HitInfo \<times> u32" where
  "shade sc r hit t =
     (if shader hit = 1 then lambertian sc r hit t
      else if shader hit = 3 then (case mirror r hit of (c, r', hit') \<Rightarrow> (c, r', hit', t))
      else if shader hit = 6 then transparent r hit t
      else (vadd (diffuse hit) (emission hit), r, hit, t))"

text \<open>
  The bounce loop of \<open>main_fs\<close>, with the number of iterations that are left.  In
  \<open>res += hit.throughput * shade(&r, &hit, &t)\<close> the left operand is evaluated first, so
  the throughput is the one before the call.
\<close>

definition bgcolor :: vec3 where
  "bgcolor = Vec3 (1 / 10) (3 / 10) (6 / 10)"

fun path_loop :: "Scene \<Rightarrow> nat \<Rightarrow> Ray \<Rightarrow> HitInfo \<Rightarrow> u32 \<Rightarrow> vec3 \<Rightarrow> vec3 \<times> u32" where
  "path_loop sc 0 r hit t res = (res, t)"
| "path_loop sc (Suc k) r hit t res =
     (case intersect_scene sc r hit of
        (True, r1, hit1) \<Rightarrow>
          (case shade sc r1 hit1 t of
             (c, r2, hit2, t2) \<Rightarrow>
               let res' = vadd res (vmul (throughput hit1) c)
               in if has_hit hit2 then (res', t2) else path_loop sc k r2 hit2 t2 res')
      | (False, r1, hit1) \<Rightarrow>
          (vadd res (vmul (throughput hit1)
                          (if enable_background sc = 1 then bgcolor else splat 0)), t))"

section \<open>Brute-force scene intersection (week06/part1/shader.wgsl)\<close>

text \<open>
  The week06 shader keeps positions, normals and material indices in separate buffers and
  scans all triangles.  Its \<open>HitInfo\<close> has the first ten fields of the week08 record;
  the model uses the one record, and the week06 code never touches the other fields.
\<close>

datatype vec3u = Vec3u (tx: u32) (ty: u32) (tz: u32)

record Mesh6 =
  vPositions :: "u32 \<Rightarrow> vec3"
  meshFaces6 :: "u32 \<Rightarrow> vec3u"
  meshNormals :: "u32 \<Rightarrow> vec3"
  materials6 :: "u32 \<Rightarrow> Material"
  matIndices :: "u32 \<Rightarrow> u32"
  numTriangles :: u32
  triangle_shader6 :: u32

definition w6_intersect_triangle :: "Mesh6 \<Rightarrow> Ray \<Rightarrow> HitInfo \<Rightarrow> u32 \<Rightarrow> bool \<times> HitInfo" where
  "w6_intersect_triangle m r hit i =
     (let face = meshFaces6 m i;
          v0 = vPositions m (tx face); v1 = vPositions m (ty face); v2 = vPositions m (tz face);
          n0 = meshNormals m (tx face); n1 = meshNormals m (ty face); n2 = meshNormals m (tz face);
          e0 = vsub v1 v0; e1 = vsub v2 v0;
          n = cross e0 e1;
          q = dot (direction r) n
      in if \<bar>q\<bar> < 1 / 10 ^ 4 then (False, hit)
         else let a = vsub v0 (origin r); t = dot a n / q
           in if t < tmin r \<or> t > tmax r then (False, hit)
              else let beta = dot (cross a (direction r)) e1 / q;
                       gamma = - dot (cross a (direction r)) e0 / q
                in if beta < 0 \<or> gamma < 0 \<or> 1 - beta - gamma < 0 then (False, hit)
                   else (True, hit\<lparr> has_hit := True,
                           position := vadd (origin r) (smul (direction r) t),
                           distance := t,
                           normal := normalize_v
                             (vadd (vadd (smul n0 (1 - beta - gamma)) (smul n1 beta))
                                   (smul n2 gamma)) \<rparr>))"

definition w6_scene_step :: "Mesh6 \<Rightarrow> nat \<Rightarrow> Ray \<times> HitInfo \<Rightarrow> Ray \<times> HitInfo" where
  "w6_scene_step m j s =
     (case s of (r, hit) \<Rightarrow>
        let i = word_of_nat j
        in case w6_intersect_triangle m r hit i of
             (True, hit') \<Rightarrow>
               let mat = materials6 m (matIndices m i)
               in (r\<lparr> tmax := distance hit' \<rparr>,
                   hit'\<lparr> diffuse := mat_diffuse mat, emission := mat_emission mat,
                          shader := triangle_shader6 m \<rparr>)
           | (False, hit') \<Rightarrow> (r, hit'))"

definition w6_intersect_scene :: "Mesh6 \<Rightarrow> Ray \<Rightarrow> HitInfo \<Rightarrow> bool \<times> Ray \<times> HitInfo" where
  "w6_intersect_scene m r hit =
     (let s = fold (w6_scene_step m) [0 ..< unat (numTriangles m)] (r, hit)
      in (has_hit (snd s), s))"

definition mesh6_of :: "Scene \<Rightarrow> u32 \<Rightarrow> Mesh6" where
  \<comment> \<open>the mesh of a week08 scene with \<open>n\<close> triangles, in the week06 buffers\<close>
  "mesh6_of sc n =
     \<lparr> vPositions = (\<lambda>k. v_position (vInfo sc k)),
       meshFaces6 = (\<lambda>i. let f = meshFaces sc i in Vec3u (ux f) (uy f) (uz f)),
       meshNormals = (\<lambda>k. v_normal (vInfo sc k)),
       materials6 = materials sc,
       matIndices = (\<lambda>i. uw (meshFaces sc i)),
       numTriangles = n,
       triangle_shader6 = triangle_shader sc \<rparr>"

section \<open>The analytic scene of the refraction worksheet (third shader of unnamed/part_000)\<close>

text \<open>
  This shader keeps the best distance in the hit record (\<open>dist\<close>, set to \<open>r.tmax\<close> by
  \<open>intersect_scene\<close> before the primitives are tested) and updates it through
  \<open>hit_update\<close>.  Its ray has one more field, the refractive index of the medium.
\<close>

record RayI = Ray +
  ior :: real

record HitInfoA =
  h_has_hit :: bool
  h_dist :: real
  h_position :: vec3
  h_normal :: vec3
  rho_a :: vec3
  rho_d :: vec3
  rho_s :: vec3
  h_shininess :: real
  h_ior :: real
  h_shader :: u32
  continue_ray :: bool

definition hit_update ::
  "RayI \<Rightarrow> HitInfoA \<Rightarrow> real \<Rightarrow> vec3 \<Rightarrow> vec3 \<Rightarrow> vec3 \<Rightarrow> vec3 \<Rightarrow> vec3 \<Rightarrow> real \<Rightarrow> real \<Rightarrow> u32
   \<Rightarrow> HitInfoA" where
  "hit_update r hit t p n ra rd rs sh io ident =
     (if t \<ge> tmin r \<and> t \<le> tmax r \<and> t < h_dist hit
      then hit\<lparr> h_has_hit := True, h_dist := t, h_position := p, h_normal := normalize_v n,
                 rho_a := ra, rho_d := rd, rho_s := rs, h_shininess := sh, h_ior := io,
                 h_shader := ident, continue_ray := False \<rparr>
      else hit)"

definition a_intersect_sphere ::
  "RayI \<Rightarrow> HitInfoA \<Rightarrow> vec3 \<Rightarrow> real \<Rightarrow> vec3 \<Rightarrow> vec3 \<Rightarrow> vec3 \<Rightarrow> real \<Rightarrow> real \<Rightarrow> u32
   \<Rightarrow> HitInfoA" where
  "a_intersect_sphere r hit c radius ra rd rs sh io ident =
     (let oc = vsub (origin r) c;
          b = dot oc (direction r);
          cc = dot oc oc - radius * radius;
          disc = b * b - cc
      in if disc \<ge> 0 then
           (let s = sqrt disc;
                t1 = - b - s;
                t = (if t1 < tmin r then - b + s else t1);
                p = vadd (origin r) (smul (direction r) t)
            in hit_update r hit t p (vsub p c) ra rd rs sh io ident)
         else hit)"

section \<open>The quadratic of the sphere test\<close>

text \<open>
  Both sphere tests solve \<open>t^2 + 2 b t + c = 0\<close> for a unit direction: \<open>sphere_bhalf\<close>
  is \<open>b\<close>, \<open>sphere_disc\<close> the discriminant \<open>b^2 - c\<close>, and the roots are
  \<open>- b - sqrt disc\<close> and \<open>- b + sqrt disc\<close>.
\<close>

definition sphere_bhalf :: "'a Ray_scheme \<Rightarrow> vec3 \<Rightarrow> real" where
  "sphere_bhalf r c = dot (vsub (origin r) c) (direction r)"

definition sphere_disc :: "'a Ray_scheme \<Rightarrow> vec3 \<Rightarrow> real \<Rightarrow> real" where
  "sphere_disc r c radius =
     sphere_bhalf r c * sphere_bhalf r c
     - (dot (vsub (origin r) c) (vsub (origin r) c) - radius * radius)"

definition near_root :: "'a Ray_scheme \<Rightarrow> vec3 \<Rightarrow> real \<Rightarrow> real" where
  "near_root r c radius = - sphere_bhalf r c - sqrt (sphere_disc r c radius)"

definition far_root :: "'a Ray_scheme \<Rightarrow> vec3 \<Rightarrow> real \<Rightarrow> real" where
  "far_root r c radius = - sphere_bhalf r c + sqrt (sphere_disc r c radius)"

section \<open>The thin-lens camera\<close>

text \<open>
  \<open>get_camera_ray\<close> is the pinhole camera of the shader unnamed/part_002; the
  basis \<open>b1\<close>, \<open>b2\<close>, \<open>v\<close> and the eye point are uniforms that the host computes.
\<close>

record Camera =
  eye_point :: vec3
  b1 :: vec3
  b2 :: vec3
  v :: vec3
  camera_constant :: real
  aperture :: real
  focalDistance :: real







section \<open>Progressive accumulation (\<open>main_fs\<close>, and the frame loop of main.js)\<close>



section \<open>Scenes used as concrete inputs\<close>

definition tri_verts :: "u32 \<Rightarrow> VertexInfo" where
  \<comment> \<open>a triangle in the plane \<open>z = 5\<close>, facing the origin side\<close>
  "tri_verts k = (if k = 0 then VertexInfo (Vec3 (-3) (-1) 5) (Vec3 0 0 (-1))
                  else if k = 1 then VertexInfo (Vec3 (-1/2) (-1) 5) (Vec3 0 0 (-1))
                  else if k = 2 then VertexInfo (Vec3 (-1/2) 4 5) (Vec3 0 0 (-1))
                  else VertexInfo (Vec3 (-3) 4 5) (Vec3 0 0 (-1)))"

definition one_tri :: Scene where
  "one_tri = \<lparr> vInfo = tri_verts, meshFaces = (\<lambda>i. Vec4u 0 1 2 0),
               materials = (\<lambda>i. Material (splat 0) (splat (1/2))),
               aabb = Aabb (Vec3 (-3) (-1) 0) (Vec3 3 4 5),
               treeIds = (\<lambda>i. i),
               bspTree = (\<lambda>n. if n = 0 then Vec4u 0 0 1 2 else if n = 1 then Vec4u 7 0 0 0
                                else Vec4u 3 1 0 0),
               bspPlanes = (\<lambda>n. 0),
               lightIndices = (\<lambda>i. 0), numLights = 0, triangle_shader = 1,
               enable_background = 0 \<rparr>"

definition two_tri :: Scene where
  \<comment> \<open>two triangles that share the edge from vertex 0 to vertex 2, in one root leaf\<close>
  "two_tri = \<lparr> vInfo = tri_verts,
               meshFaces = (\<lambda>i. if i = 0 then Vec4u 0 1 2 0 else Vec4u 0 2 3 1),
               materials = (\<lambda>i. Material (splat 0) (splat (1/2))),
               aabb = Aabb (Vec3 (-3) (-1) 0) (Vec3 3 4 5),
               treeIds = (\<lambda>i. i),
               bspTree = (\<lambda>n. Vec4u 11 0 0 0),
               bspPlanes = (\<lambda>n. 0),
               lightIndices = (\<lambda>i. 0), numLights = 0, triangle_shader = 1,
               enable_background = 0 \<rparr>"

definition ray_edge :: Ray where
  \<comment> \<open>meets the plane \<open>z = 5\<close> in the midpoint of the shared edge\<close>
  "ray_edge = \<lparr> origin = Vec3 (-7/4) (3/2) 0, direction = Vec3 0 0 1, tmin = 0, tmax = 100 \<rparr>"

definition ray_edge5 :: Ray where
  \<comment> \<open>\<open>ray_edge\<close> after the leaf loop has met triangle 0: \<open>tmax\<close> is the hit distance\<close>
  "ray_edge5 = ray_edge\<lparr> tmax := 5 \<rparr>"

definition hit_edge0 :: HitInfo where
  \<comment> \<open>the hit record after the leaf loop has met triangle 0\<close>
  "hit_edge0 = default_hitinfo\<lparr> has_hit := True, distance := 5,
                 position := Vec3 (-7/4) (3/2) 5, normal := Vec3 0 0 (-1), triangle_idx := 0 \<rparr>"

definition aray0 :: RayI where
  "aray0 = \<lparr> origin = Vec3 0 1 0, direction = Vec3 0 (-1) 0, tmin = 0, tmax = 10, ior = 1 \<rparr>"

definition ahit0 :: HitInfoA where
  \<comment> \<open>a recorded hit at distance 3\<close>
  "ahit0 = \<lparr> h_has_hit = True, h_dist = 3, h_position = Vec3 0 (-2) 0, h_normal = Vec3 0 1 0,
             rho_a = splat 0, rho_d = splat 0, rho_s = splat 0, h_shininess = 0, h_ior = 1,
             h_shader = 1, continue_ray = False \<rparr>"

definition tir_ray :: Ray where
  \<comment> \<open>inside the glass sphere, meeting its surface at 53 degrees from the normal\<close>
  "tir_ray = \<lparr> origin = Vec3 (436 / 10) 90 (2752 / 10), direction = Vec3 (4 / 5) 0 (3 / 5),
               tmin = 1 / 10 ^ 3, tmax = 108 \<rparr>"

definition tir_hit :: HitInfo where
  \<comment> \<open>the hit of \<open>tir_ray\<close> on the glass sphere, as \<open>intersect_scene\<close> fills it in\<close>
  "tir_hit = default_hitinfo\<lparr> has_hit := True, distance := 108, position := Vec3 130 90 340,
               normal := Vec3 0 0 1, ior1_over_ior2 := 1 / (15 / 10), shader := 6,
               extinction := Vec3 (1 / 100) 1 0 \<rparr>"

definition enter_ray :: Ray where
  \<comment> \<open>meets the same point from outside, along the normal\<close>
  "enter_ray = \<lparr> origin = Vec3 130 90 400, direction = Vec3 0 0 (-1),
                 tmin = 1 / 10 ^ 3, tmax = 60 \<rparr>"

definition glass_scene :: Scene where
  \<comment> \<open>the two spheres of \<open>intersect_scene\<close> in a box without triangles\<close>
  "glass_scene = \<lparr> vInfo = tri_verts, meshFaces = (\<lambda>i. Vec4u 0 1 2 0),
                   materials = (\<lambda>i. Material (splat 0) (splat (1/2))),
                   aabb = Aabb (Vec3 0 0 0) (Vec3 555 555 555),
                   treeIds = (\<lambda>i. i),
                   bspTree = (\<lambda>n. Vec4u 3 0 0 0),
                   bspPlanes = (\<lambda>n. 0),
                   lightIndices = (\<lambda>i. 0), numLights = 0, triangle_shader = 1,
                   enable_background = 0 \<rparr>"

definition centre_ray :: Ray where
  \<comment> \<open>starts at the centre of the glass sphere\<close>
  "centre_ray = \<lparr> origin = Vec3 130 90 250, direction = Vec3 (2 / 3) (1 / 3) (2 / 3),
                  tmin = 1 / 10 ^ 3, tmax = 10 ^ 6 \<rparr>"

definition centre_ray90 :: Ray where
  \<comment> \<open>\<open>centre_ray\<close> as \<open>intersect_scene\<close> leaves it\<close>
  "centre_ray90 = centre_ray\<lparr> tmax := 90 \<rparr>"

definition centre_hit :: HitInfo where
  \<comment> \<open>the hit of \<open>centre_ray\<close> on the glass sphere\<close>
  "centre_hit = default_hitinfo\<lparr> has_hit := True, distance := 90, position := Vec3 190 120 310,
                  normal := Vec3 (2 / 3) (1 / 3) (2 / 3), ior1_over_ior2 := 2 / 3, shader := 6,
                  extinction := Vec3 (1 / 100) 1 0 \<rparr>"








definition graze_ray :: Ray where
  \<comment> \<open>starts at the centre of a sphere of radius \<open>graze_radius\<close> about the origin\<close>
  "graze_ray = \<lparr> origin = Vec3 0 0 0, direction = Vec3 1 0 0, tmin = 0, tmax = 1 \<rparr>"

definition graze_radius :: real where
  \<comment> \<open>\<open>2^-14\<close>, so that the discriminant \<open>2^-28\<close> is below \<open>1e-8\<close>\<close>
  "graze_radius = 1 / 16384"

definition aray_in :: RayI where
  \<comment> \<open>starts at the centre of the sphere of the analytic scene\<close>
  "aray_in = \<lparr> origin = Vec3 0 (1 / 2) 0, direction = Vec3 0 (-1) 0, tmin = 1 / 10 ^ 4,
               tmax = 10, ior = 15 / 10 \<rparr>"

definition ahit_init :: HitInfoA where
  \<comment> \<open>the hit record as \<open>intersect_scene\<close> sets it up for \<open>aray_in\<close>\<close>
  "ahit_init = \<lparr> h_has_hit = False, h_dist = 10, h_position = splat 0, h_normal = splat 0,
                 rho_a = splat 0, rho_d = splat 0, rho_s = splat 0, h_shininess = 0, h_ior = 0,
                 h_shader = 0, continue_ray = False \<rparr>"


definition ray_drift :: Ray where
  \<comment> \<open>starts left of the plane \<open>x = 0\<close> and drifts slowly further left\<close>
  "ray_drift = \<lparr> origin = Vec3 (-1) 0 0, direction = Vec3 (- 1 / 10 ^ 9) 0 1,
                 tmin = 0, tmax = 100 \<rparr>"


section \<open>Lemmas\<close>

lemmas vec_defs = splat_def vadd_def vsub_def vneg_def vmul_def vdiv_def smul_def sdiv_def
  dot_def cross_def length_v_def normalize_v_def reflect_def vexp_def vidx_def

lemmas tri_defs = intersect_triangle_def tri_q_def tri_t_def tri_beta_def tri_gamma_def tri_a_def
  tri_e0_def tri_e1_def

lemma upt_0_2: "[0 ..< 2] = [0, Suc 0]"
  by (simp add: numeral_2_eq_2)














lemma snd_rnd: "snd (rnd t) = mcg31 t"
  by (simp only: rnd_def Let_def snd_conv)


lemma rnd_1: "rnd 1 = (1977654935 / 2147483648, 1977654935)"
  by (simp add: rnd_def mcg31_def Let_def f32_of_u32_def)

lemma rnd_12: "rnd 12 = (109539092 / 2147483648, 109539092)"
  by (simp add: rnd_def mcg31_def Let_def f32_of_u32_def)

lemma exp_le_half: "exp (x::real) \<le> 1 / 2" if "x \<le> - 1"
proof -
  have "exp x \<le> exp (- 1 :: real)" using that by simp
  also have "\<dots> = 1 / exp 1" by (simp add: exp_minus inverse_eq_divide)
  also have "\<dots> \<le> 1 / 2"
  proof -
    have "(2::real) \<le> exp 1" using exp_ge_add_one_self [of "1::real"] by simp
    then show ?thesis by (simp add: field_simps)
  qed
  finally show ?thesis .
qed

lemma sin2thetat_upd [simp]:
  "sin2thetat r (hit\<lparr> emit := e \<rparr>) = sin2thetat r hit"
  "sin2thetat r (hit\<lparr> throughput := th \<rparr>) = sin2thetat r hit"
  by (simp_all add: sin2thetat_def eta_of_def costhetai0_def)

lemma costhetai0_upd [simp]:
  "costhetai0 r (hit\<lparr> emit := e \<rparr>) = costhetai0 r hit"
  "costhetai0 r (hit\<lparr> throughput := th \<rparr>) = costhetai0 r hit"
  by (simp_all add: costhetai0_def)

lemma absorb_upd [simp]:
  "absorb_Tr (hit\<lparr> emit := e \<rparr>) = absorb_Tr hit"
  "absorb_prob (hit\<lparr> emit := e \<rparr>) = absorb_prob hit"
  by (simp_all add: absorb_prob_def absorb_Tr_def)

lemma refract_tir:
  assumes "sin2thetat r hit > 1"
  shows "transparent_refract r hit t =
     (splat 0,
      r\<lparr> origin := position hit, direction := reflect (direction r) (normal hit),
         tmin := 1 / 10 ^ 3, tmax := 10 ^ 6 \<rparr>,
      hit\<lparr> emit := True, has_hit := False \<rparr>, t)"
  using assms by (simp add: transparent_refract_def mirror_def Let_def)

lemma refract_throughput:
  "throughput (fst (snd (snd (transparent_refract r hit t)))) = throughput hit"
  by (simp add: transparent_refract_def mirror_def Let_def split: prod.splits)

lemma intersect_scene_has_hit:
  "intersect_scene sc r0 hit0 = (True, r, hit) \<Longrightarrow> has_hit hit"
  by (auto simp: intersect_scene_def Let_def split: prod.splits bool.splits)

lemma path_loop_stops:
  assumes "intersect_scene sc r0 hit0 = (True, r, hit)"
    and "shade sc r hit t = (c, r2, hit2, t2)" and "has_hit hit2"
  shows "path_loop sc (Suc k) r0 hit0 t res = (vadd res (vmul (throughput hit) c), t2)"
  using assms by simp

lemma vadd_vmul_zero: "vadd res (vmul th (splat 0)) = res"
  by (cases res) (simp add: vec_defs)

lemma sqrt_8100: "sqrt 8100 = 90"
  by (rule real_sqrt_unique) simp_all

lemma centre_scene_hit:
  "intersect_scene glass_scene centre_ray default_hitinfo = (True, centre_ray90, centre_hit)"
  apply (simp add: intersect_scene_def intersect_min_max_def intersect_sphere_def glass_scene_def
      centre_ray_def centre_ray90_def centre_hit_def vec_defs Let_def sqrt_8100 default_hitinfo_def
      intersect_trimesh_def)
  apply (subst trimesh_loop.simps)
  apply (simp add: MAX_LEVEL_def BSP_LEAF_def Let_def leaf_loop_def)
  done

lemma tir_geometry:
  "costhetai0 tir_ray tir_hit = - 3 / 5" "sin2thetat tir_ray tir_hit = 36 / 25"
  by (simp_all add: sin2thetat_def eta_of_def costhetai0_def tir_ray_def tir_hit_def vec_defs)

lemma avg_bounds:
  fixes a b :: real
  assumes "0 \<le> a" "a \<le> 1" "0 \<le> b" "b \<le> 1 / 2"
  shows "1 / 3 \<le> (a + b + 1) / 3 \<and> (a + b + 1) / 3 \<le> 5 / 6"
  using assms by auto

lemma tir_prob: "1 / 3 \<le> absorb_prob tir_hit \<and> absorb_prob tir_hit \<le> 5 / 6"
proof -
  have e1: "exp (- (27 / 25) :: real) \<le> 1" by simp
  have e2: "exp (- 108 :: real) \<le> 1 / 2" by (rule exp_le_half) simp
  have e3: "0 \<le> exp (- (27 / 25) :: real)" and e4: "0 \<le> exp (- 108 :: real)" by simp_all
  have "absorb_prob tir_hit = (exp (- (27 / 25)) + exp (- 108) + 1) / 3"
    by (simp add: absorb_prob_def absorb_Tr_def tir_hit_def default_hitinfo_def vec_defs)
  with avg_bounds [OF e3 e1 e4 e2] show ?thesis by (simp only:)
qed

lemma centre_prob: "1 / 3 \<le> absorb_prob centre_hit \<and> absorb_prob centre_hit \<le> 5 / 6"
proof -
  have e1: "exp (- (9 / 10) :: real) \<le> 1" by simp
  have e2: "exp (- 90 :: real) \<le> 1 / 2" by (rule exp_le_half) simp
  have e3: "0 \<le> exp (- (9 / 10) :: real)" and e4: "0 \<le> exp (- 90 :: real)" by simp_all
  have "absorb_prob centre_hit = (exp (- (9 / 10)) + exp (- 90) + 1) / 3"
    by (simp add: absorb_prob_def absorb_Tr_def centre_hit_def default_hitinfo_def vec_defs)
  with avg_bounds [OF e3 e1 e4 e2] show ?thesis by (simp only:)
qed

lemma transparent_absorbed:
  assumes "costhetai0 r hit < 0" and "\<not> fst (rnd t) < absorb_prob hit"
  shows "transparent r hit t = (splat 0, r, hit\<lparr> emit := True \<rparr>, snd (rnd t))"
  using assms by (simp add: transparent_def Let_def case_prod_beta)

lemma enter_geometry: "costhetai0 enter_ray tir_hit = 1"
  by (simp add: costhetai0_def enter_ray_def tir_hit_def vec_defs)

lemma centre_geometry: "costhetai0 centre_ray90 centre_hit = - 1"
  by (simp add: costhetai0_def centre_ray90_def centre_ray_def centre_hit_def vec_defs)













lemma sqrt_gt_abs:
  fixes b d :: real
  assumes "0 < d"
  shows "\<bar>b\<bar> < sqrt (b * b + d)"
proof -
  have "sqrt (b * b) < sqrt (b * b + d)"
    by (rule real_sqrt_less_mono) (use assms in simp)
  then show ?thesis by (simp only: real_sqrt_abs2)
qed

lemma inside_near_root_negative:
  assumes "dot (vsub (origin r) c) (vsub (origin r) c) < radius * radius"
  shows "near_root r c radius < 0"
proof -
  define b where "b = sphere_bhalf r c"
  define d where "d = radius * radius - dot (vsub (origin r) c) (vsub (origin r) c)"
  have "0 < d" using assms by (simp add: d_def)
  then have "\<bar>b\<bar> < sqrt (b * b + d)" by (rule sqrt_gt_abs)
  moreover have "sphere_disc r c radius = b * b + d"
    by (simp add: sphere_disc_def b_def d_def)
  ultimately show ?thesis
    by (simp add: near_root_def b_def)
qed

lemma intersect_sphere_far:
  assumes "1 / 10 ^ 8 \<le> sphere_disc r c radius"
    and "near_root r c radius < tmin r \<or> tmax r < near_root r c radius"
    and "tmin r \<le> far_root r c radius" and "far_root r c radius \<le> tmax r"
  shows "intersect_sphere r hit c radius =
     (True, hit\<lparr> has_hit := True, distance := far_root r c radius,
                  position := vadd (origin r) (smul (direction r) (far_root r c radius)),
                  normal := normalize_v (vsub (vadd (origin r)
                              (smul (direction r) (far_root r c radius))) c) \<rparr>)"
  using assms
  by (simp add: intersect_sphere_def Let_def sphere_disc_def sphere_bhalf_def near_root_def
      far_root_def)

lemma a_intersect_sphere_far:
  assumes "0 \<le> sphere_disc r c radius"
    and "near_root r c radius < tmin r"
    and "tmin r \<le> far_root r c radius" and "far_root r c radius \<le> tmax r"
    and "far_root r c radius < h_dist hit"
  shows "h_has_hit (a_intersect_sphere r hit c radius ra rd rs sh io ident)
     \<and> h_dist (a_intersect_sphere r hit c radius ra rd rs sh io ident) = far_root r c radius"
  using assms
  by (simp add: a_intersect_sphere_def hit_update_def Let_def sphere_disc_def sphere_bhalf_def
      near_root_def far_root_def)

lemma sqrt_9_100: "sqrt (9 / 100) = 3 / 10"
  by (rule real_sqrt_unique) (simp_all add: power2_eq_square)




lemma sqrt_graze: "sqrt (1 / 268435456) = 1 / 16384"
  by (rule real_sqrt_unique) (simp_all add: power2_eq_square)

lemma inside_disc_large:
  assumes "dot (vsub (origin r) c) (vsub (origin r) c) < radius * radius"
    and "2 / 10 ^ 4 \<le> far_root r c radius"
  shows "1 / 10 ^ 8 \<le> sphere_disc r c radius"
proof -
  define b where "b = sphere_bhalf r c"
  define d where "d = radius * radius - dot (vsub (origin r) c) (vsub (origin r) c)"
  define s where "s = sqrt (sphere_disc r c radius)"
  have dpos: "0 < d" using assms(1) by (simp add: d_def)
  have disc: "sphere_disc r c radius = b * b + d"
    by (simp add: sphere_disc_def b_def d_def)
  have nn: "0 \<le> sphere_disc r c radius"
    unfolding disc using dpos by (simp add: add_nonneg_nonneg)
  have "\<bar>b\<bar> < s"
    unfolding s_def disc using dpos by (rule sqrt_gt_abs)
  moreover have "far_root r c radius = - b + s"
    by (simp add: far_root_def b_def s_def)
  ultimately have "1 / 10 ^ 4 \<le> s"
    using assms(2) by simp
  then have "(1 / 10 ^ 4) * (1 / 10 ^ 4) \<le> s * s"
    by (intro mult_mono) simp_all
  moreover have "s * s = sphere_disc r c radius"
    unfolding s_def using nn by simp
  ultimately show ?thesis by simp
qed

section \<open>The claims\<close>

subsection \<open>C1\<close>

text \<open>
  C1.  The BSP traversal and the linear scan do not agree on every ray.  The scene
  \<open>one_tri\<close> has one triangle in the plane \<open>z = 5\<close>, left of the split plane \<open>x = 0\<close>
  of the root; the left leaf lists it and the right leaf is empty.  The ray \<open>ray_drift\<close>
  starts at \<open>x = -1\<close> and its direction has the \<open>x\<close> component \<open>-1e-9\<close>.  The traversal
  takes the right child for near, because the component is negative, and replaces the
  divisor of \<open>t_split\<close> by \<open>+1e-8\<close>, because the component is small: \<open>t_split\<close>
  is \<open>1e8\<close>, beyond \<open>tmax\<close>, so only the empty right leaf is visited and the traversal
  reports no hit.  The triangle test itself and the linear scan of week06 over the same
  mesh hit the triangle at distance 5.
\<close>

theorem bsp_traversal_misses_hit:
  "intersect_trimesh one_tri ray_drift default_hitinfo = (False, ray_drift, default_hitinfo)
   \<and> fst (intersect_triangle one_tri ray_drift default_hitinfo 0)
   \<and> fst (w6_intersect_scene (mesh6_of one_tri 1) ray_drift default_hitinfo)
   \<and> distance (snd (snd (w6_intersect_scene (mesh6_of one_tri 1) ray_drift default_hitinfo))) = 5"
proof -
  have "trimesh_loop one_tri 0 0 [] ray_drift default_hitinfo
        = (False, ray_drift, default_hitinfo)"
    apply (subst trimesh_loop.simps)
    apply (simp add: MAX_LEVEL_def BSP_LEAF_def one_tri_def ray_drift_def vec_defs Let_def)
    apply (subst trimesh_loop.simps)
    apply (simp add: MAX_LEVEL_def BSP_LEAF_def Let_def leaf_loop_def)
    done
  moreover have "fst (intersect_triangle one_tri ray_drift default_hitinfo 0)"
    by (simp add: tri_defs one_tri_def ray_drift_def tri_verts_def vec_defs Let_def)
  moreover have "fst (w6_intersect_scene (mesh6_of one_tri 1) ray_drift default_hitinfo)
      \<and> distance (snd (snd (w6_intersect_scene (mesh6_of one_tri 1) ray_drift
            default_hitinfo))) = 5"
    by (simp add: w6_intersect_scene_def w6_scene_step_def w6_intersect_triangle_def mesh6_of_def
        one_tri_def ray_drift_def tri_verts_def vec_defs Let_def default_hitinfo_def)
  ultimately show ?thesis
    by (simp only: intersect_trimesh_def simp_thms)
qed

subsection \<open>C2\<close>




subsection \<open>C3\<close>

text \<open>
  C3, as amended.  Where the best distance is kept in the hit record (\<open>hit_update\<close> of the
  analytic scene), a candidate at exactly that distance leaves the record as it is.  In
  the triangle loop of a BSP leaf the best distance is carried in \<open>ray.tmax\<close> and
  \<open>intersect_triangle\<close> rejects only \<open>t > tmax\<close>: a candidate at exactly the best
  distance that passes the other tests is accepted and replaces the recorded triangle.
\<close>

theorem tie_break_rules:
  "(t = h_dist ahit \<longrightarrow> hit_update ar ahit t p n ra rd rs sh io ident = ahit)
   \<and> (tmax r = distance hit \<and> tri_t sc r (treeIds sc (id0 + word_of_nat j)) = distance hit
        \<and> tmin r \<le> tmax r
        \<and> 1 / 10 ^ 8 \<le> \<bar>tri_q sc r (treeIds sc (id0 + word_of_nat j))\<bar>
        \<and> 0 \<le> tri_beta sc r (treeIds sc (id0 + word_of_nat j))
        \<and> 0 \<le> tri_gamma sc r (treeIds sc (id0 + word_of_nat j))
        \<and> tri_beta sc r (treeIds sc (id0 + word_of_nat j))
            + tri_gamma sc r (treeIds sc (id0 + word_of_nat j)) \<le> 1
      \<longrightarrow> fst (leaf_step sc id0 j (found, r, hit))
          \<and> triangle_idx (snd (snd (leaf_step sc id0 j (found, r, hit))))
              = treeIds sc (id0 + word_of_nat j)
          \<and> distance (snd (snd (leaf_step sc id0 j (found, r, hit)))) = distance hit)"
  by (auto simp: hit_update_def leaf_step_def intersect_triangle_def Let_def)

theorem tie_break_rules_witness:
  "hit_update aray0 ahit0 3 (Vec3 0 (-2) 0) (Vec3 0 1 0) (splat 1) (splat 1) (splat 1) 0 1 2 = ahit0
   \<and> fst (leaf_step two_tri 0 1 (True, ray_edge5, hit_edge0))
   \<and> triangle_idx (snd (snd (leaf_step two_tri 0 1 (True, ray_edge5, hit_edge0)))) = 1
   \<and> distance (snd (snd (leaf_step two_tri 0 1 (True, ray_edge5, hit_edge0)))) = 5"
proof -
  have a: "3 = h_dist ahit0"
    by (simp add: ahit0_def)
  have i: "treeIds two_tri (0 + word_of_nat 1) = 1"
    by (simp add: two_tri_def)
  have b: "tmax ray_edge5 = distance hit_edge0
      \<and> tri_t two_tri ray_edge5 (treeIds two_tri (0 + word_of_nat 1)) = distance hit_edge0
      \<and> tmin ray_edge5 \<le> tmax ray_edge5
      \<and> 1 / 10 ^ 8 \<le> \<bar>tri_q two_tri ray_edge5 (treeIds two_tri (0 + word_of_nat 1))\<bar>
      \<and> 0 \<le> tri_beta two_tri ray_edge5 (treeIds two_tri (0 + word_of_nat 1))
      \<and> 0 \<le> tri_gamma two_tri ray_edge5 (treeIds two_tri (0 + word_of_nat 1))
      \<and> tri_beta two_tri ray_edge5 (treeIds two_tri (0 + word_of_nat 1))
          + tri_gamma two_tri ray_edge5 (treeIds two_tri (0 + word_of_nat 1)) \<le> 1"
    unfolding i
    by (simp add: tri_defs two_tri_def ray_edge5_def ray_edge_def hit_edge0_def tri_verts_def
        vec_defs Let_def)
  have d: "distance hit_edge0 = 5"
    by (simp add: hit_edge0_def)
  from tie_break_rules [of 3 ahit0 aray0 "Vec3 0 (-2) 0" "Vec3 0 1 0" "splat 1" "splat 1" "splat 1"
      0 1 2 ray_edge5 hit_edge0 two_tri 0 1 True] a b
  show ?thesis
    unfolding i d by blast
qed

text \<open>
  C3.  The claim as stated fails in the BSP leaf loop.  The triangles 0 and 1 of \<open>two_tri\<close>
  share an edge and \<open>ray_edge\<close> meets it.  The loop records triangle 0 at distance 5 and
  sets \<open>tmax\<close> to 5; triangle 1 is met at the same distance 5, and the loop ends with
  triangle 1 in the record.
\<close>

theorem leaf_tie_counterexample:
  "leaf_step two_tri 0 0 (False, ray_edge, default_hitinfo) = (True, ray_edge5, hit_edge0)
   \<and> triangle_idx hit_edge0 = 0 \<and> distance hit_edge0 = 5
   \<and> tri_t two_tri ray_edge5 1 = 5
   \<and> triangle_idx (snd (snd (leaf_step two_tri 0 1 (True, ray_edge5, hit_edge0)))) = 1
   \<and> triangle_idx (snd (snd (leaf_loop two_tri 0 2 ray_edge default_hitinfo))) = 1"
  by (simp add: tri_defs two_tri_def ray_edge5_def ray_edge_def hit_edge0_def tri_verts_def
      vec_defs Let_def default_hitinfo_def leaf_loop_def leaf_step_def upt_0_2)

subsection \<open>C4\<close>

text \<open>
  C4, as amended.  For a dielectric hit whose refraction discriminant \<open>sin2thetat\<close>
  exceeds 1, \<open>transparent\<close> takes the mirror branch whenever it reaches the test: that
  is, when the ray enters (the cosine of incidence is not negative) or when the absorption
  roulette of an exiting ray survives.  The colour is zero, the continuation ray starts at
  the hit position with the incoming direction reflected about the normal, no refracted
  direction is computed, and the generator is advanced by the absorption draw of an
  exiting ray only: no Fresnel draw is made.
\<close>

theorem tir_takes_mirror_branch:
  assumes "sin2thetat r hit > 1"
    and "0 \<le> costhetai0 r hit \<or> fst (rnd t) < absorb_prob hit"
  shows "fst (transparent r hit t) = splat 0
     \<and> fst (snd (transparent r hit t))
         = r\<lparr> origin := position hit, direction := reflect (direction r) (normal hit),
              tmin := 1 / 10 ^ 3, tmax := 10 ^ 6 \<rparr>
     \<and> \<not> has_hit (fst (snd (snd (transparent r hit t))))
     \<and> snd (snd (snd (transparent r hit t)))
         = (if costhetai0 r hit < 0 then snd (rnd t) else t)"
  using assms
  by (auto simp: transparent_def Let_def refract_tir split: prod.splits)

theorem tir_takes_mirror_branch_witness:
  "1 < sin2thetat tir_ray tir_hit \<and> fst (rnd 12) < absorb_prob tir_hit
   \<and> fst (transparent tir_ray tir_hit 12) = splat 0
   \<and> fst (snd (transparent tir_ray tir_hit 12))
       = tir_ray\<lparr> origin := position tir_hit,
                   direction := reflect (direction tir_ray) (normal tir_hit),
                   tmin := 1 / 10 ^ 3, tmax := 10 ^ 6 \<rparr>
   \<and> \<not> has_hit (fst (snd (snd (transparent tir_ray tir_hit 12))))
   \<and> snd (snd (snd (transparent tir_ray tir_hit 12))) = snd (rnd 12)"
proof -
  have a: "1 < sin2thetat tir_ray tir_hit"
    by (simp add: tir_geometry)
  have b: "fst (rnd 12) < absorb_prob tir_hit"
    using tir_prob by (simp add: rnd_12)
  then have c: "0 \<le> costhetai0 tir_ray tir_hit \<or> fst (rnd 12) < absorb_prob tir_hit" ..
  have d: "costhetai0 tir_ray tir_hit < 0"
    by (simp add: tir_geometry)
  from tir_takes_mirror_branch [OF a c] a b d show ?thesis
    by (simp only: if_True simp_thms)
qed

text \<open>
  C4.  The claim as stated, for every hit past the critical angle, fails for an exiting ray
  whose absorption roulette fails.  \<open>tir_ray\<close> meets the glass sphere from inside at 53
  degrees (\<open>sin2thetat = 1.44\<close>); with the generator state 1 the draw is 0.92, above
  the survival probability, and \<open>transparent\<close> returns before the discriminant is
  tested: the ray keeps its direction, which is not the reflected one.
\<close>

theorem tir_absorbed_counterexample:
  "1 < sin2thetat tir_ray tir_hit
   \<and> transparent tir_ray tir_hit 1 = (splat 0, tir_ray, tir_hit\<lparr> emit := True \<rparr>, 1977654935)
   \<and> direction tir_ray \<noteq> reflect (direction tir_ray) (normal tir_hit)"
proof -
  have "\<not> fst (rnd 1) < absorb_prob tir_hit"
    using tir_prob by (simp add: rnd_1)
  then have "transparent tir_ray tir_hit 1
      = (splat 0, tir_ray, tir_hit\<lparr> emit := True \<rparr>, snd (rnd 1))"
    by (intro transparent_absorbed) (simp_all add: tir_geometry)
  moreover have "direction tir_ray \<noteq> reflect (direction tir_ray) (normal tir_hit)"
    by (simp add: tir_ray_def tir_hit_def vec_defs)
  ultimately show ?thesis
    by (simp add: tir_geometry rnd_1)
qed

subsection \<open>C5\<close>

text \<open>
  C5.  For an exiting ray (negative cosine of incidence) \<open>transparent\<close> computes the
  transmittance \<open>Tr = exp(-extinction * distance)\<close> and draws one random number against
  the average channel of \<open>Tr\<close>.  On survival the throughput is multiplied by
  \<open>Tr / prob\<close>.  On failure the function returns zero radiance and leaves the ray and
  the hit flag as they are, so that the bounce loop of \<open>main_fs\<close> stops with what it
  had accumulated.  For an entering ray the throughput is unchanged and no absorption
  draw is made.
\<close>

theorem absorption_on_exit:
  "absorb_Tr hit = Vec3 (exp (- vx (extinction hit) * distance hit))
                        (exp (- vy (extinction hit) * distance hit))
                        (exp (- vz (extinction hit) * distance hit))
   \<and> absorb_prob hit = (vx (absorb_Tr hit) + vy (absorb_Tr hit) + vz (absorb_Tr hit)) / 3
   \<and> (costhetai0 r hit < 0 \<and> fst (rnd t) < absorb_prob hit \<longrightarrow>
        throughput (fst (snd (snd (transparent r hit t))))
          = vmul (throughput hit) (sdiv (absorb_Tr hit) (absorb_prob hit)))
   \<and> (costhetai0 r hit < 0 \<and> \<not> fst (rnd t) < absorb_prob hit \<longrightarrow>
        transparent r hit t = (splat 0, r, hit\<lparr> emit := True \<rparr>, snd (rnd t)))
   \<and> (costhetai0 r hit < 0 \<and> \<not> fst (rnd t) < absorb_prob hit
        \<and> intersect_scene sc r0 hit0 = (True, r, hit) \<and> shader hit = 6 \<longrightarrow>
        path_loop sc (Suc k) r0 hit0 t res = (res, snd (rnd t)))
   \<and> (0 \<le> costhetai0 r hit \<longrightarrow>
        throughput (fst (snd (snd (transparent r hit t)))) = throughput hit
        \<and> transparent r hit t = transparent_refract r (hit\<lparr> emit := True \<rparr>) t)"
proof -
  have a: "absorb_Tr hit = Vec3 (exp (- vx (extinction hit) * distance hit))
                        (exp (- vy (extinction hit) * distance hit))
                        (exp (- vz (extinction hit) * distance hit))"
    by (simp add: absorb_Tr_def vec_defs)
  have b: "absorb_prob hit = (vx (absorb_Tr hit) + vy (absorb_Tr hit) + vz (absorb_Tr hit)) / 3"
    by (simp add: absorb_prob_def Let_def)
  have c: "throughput (fst (snd (snd (transparent r hit t))))
          = vmul (throughput hit) (sdiv (absorb_Tr hit) (absorb_prob hit))"
    if "costhetai0 r hit < 0" "fst (rnd t) < absorb_prob hit"
    using that by (simp add: transparent_def Let_def case_prod_beta refract_throughput)
  have d: "path_loop sc (Suc k) r0 hit0 t res = (res, snd (rnd t))"
    if ex: "costhetai0 r hit < 0" and f: "\<not> fst (rnd t) < absorb_prob hit"
      and sc: "intersect_scene sc r0 hit0 = (True, r, hit)" and sh: "shader hit = 6"
  proof -
    have "shade sc r hit t = (splat 0, r, hit\<lparr> emit := True \<rparr>, snd (rnd t))"
      using sh transparent_absorbed [OF ex f] by (simp add: shade_def)
    moreover have "has_hit (hit\<lparr> emit := True \<rparr>)"
      using intersect_scene_has_hit [OF sc] by simp
    ultimately show ?thesis
      using path_loop_stops [OF sc] by (simp only: vadd_vmul_zero)
  qed
  have e: "throughput (fst (snd (snd (transparent r hit t)))) = throughput hit
        \<and> transparent r hit t = transparent_refract r (hit\<lparr> emit := True \<rparr>) t"
    if "0 \<le> costhetai0 r hit"
    using that by (simp add: transparent_def Let_def refract_throughput)
  show ?thesis
    using a b c d e transparent_absorbed by blast
qed

theorem absorption_on_exit_witness:
  "costhetai0 tir_ray tir_hit < 0 \<and> fst (rnd 12) < absorb_prob tir_hit
   \<and> throughput (fst (snd (snd (transparent tir_ray tir_hit 12))))
       = vmul (throughput tir_hit) (sdiv (absorb_Tr tir_hit) (absorb_prob tir_hit))
   \<and> \<not> fst (rnd 1) < absorb_prob tir_hit
   \<and> transparent tir_ray tir_hit 1 = (splat 0, tir_ray, tir_hit\<lparr> emit := True \<rparr>, snd (rnd 1))
   \<and> costhetai0 centre_ray90 centre_hit < 0 \<and> \<not> fst (rnd 1) < absorb_prob centre_hit
   \<and> intersect_scene glass_scene centre_ray default_hitinfo = (True, centre_ray90, centre_hit)
   \<and> shader centre_hit = 6
   \<and> path_loop glass_scene (Suc 9) centre_ray default_hitinfo 1 (splat 0) = (splat 0, snd (rnd 1))
   \<and> 0 \<le> costhetai0 enter_ray tir_hit
   \<and> throughput (fst (snd (snd (transparent enter_ray tir_hit 1)))) = throughput tir_hit"
proof -
  have p1: "costhetai0 tir_ray tir_hit < 0" by (simp add: tir_geometry)
  have p2: "fst (rnd 12) < absorb_prob tir_hit" using tir_prob by (simp add: rnd_12)
  have p3: "\<not> fst (rnd 1) < absorb_prob tir_hit" using tir_prob by (simp add: rnd_1)
  have p4: "costhetai0 centre_ray90 centre_hit < 0" by (simp add: centre_geometry)
  have p5: "\<not> fst (rnd 1) < absorb_prob centre_hit" using centre_prob by (simp add: rnd_1)
  note p6 = centre_scene_hit
  have p7: "shader centre_hit = 6" by (simp add: centre_hit_def)
  have p8: "0 \<le> costhetai0 enter_ray tir_hit" by (simp add: enter_geometry)
  from absorption_on_exit [of tir_hit tir_ray 12] p1 p2
  have c1: "throughput (fst (snd (snd (transparent tir_ray tir_hit 12))))
       = vmul (throughput tir_hit) (sdiv (absorb_Tr tir_hit) (absorb_prob tir_hit))"
    by blast
  from absorption_on_exit [of tir_hit tir_ray 1] p1 p3
  have c2: "transparent tir_ray tir_hit 1 = (splat 0, tir_ray, tir_hit\<lparr> emit := True \<rparr>, snd (rnd 1))"
    by blast
  from absorption_on_exit [of centre_hit centre_ray90 1 glass_scene centre_ray default_hitinfo 9
      "splat 0"] p4 p5 p6 p7
  have c3: "path_loop glass_scene (Suc 9) centre_ray default_hitinfo 1 (splat 0)
       = (splat 0, snd (rnd 1))"
    by blast
  from absorption_on_exit [of tir_hit enter_ray 1] p8
  have c4: "throughput (fst (snd (snd (transparent enter_ray tir_hit 1)))) = throughput tir_hit"
    by blast
  from p1 p2 p3 p4 p5 p6 p7 p8 c1 c2 c3 c4 show ?thesis by blast
qed

subsection \<open>C6\<close>



subsection \<open>C7\<close>




subsection \<open>C8\<close>



subsection \<open>C9\<close>



subsection \<open>C10\<close>

text \<open>
  C10, as amended.  In the week08 shader, when the discriminant is at least \<open>1e-8\<close>, the
  nearer root lies outside \<open>[tmin, tmax]\<close> and the farther root inside, \<open>intersect_sphere\<close>
  reports a hit at the farther root.  So a ray that starts inside the sphere, with
  \<open>tmin \<ge> 0\<close>, hits the far surface whenever the far root lies in the interval and the
  discriminant is at least \<open>1e-8\<close>, which it is when \<open>tmin\<close> is at least \<open>2e-4\<close> (the
  continuation rays of the shader have \<open>tmin = 1e-3\<close>).  In the analytic scene, when the
  discriminant is not negative, the nearer root is below \<open>tmin\<close>, the farther root lies
  in the interval and is below the best distance recorded so far, the hit is recorded at
  the farther root.
\<close>

theorem sphere_far_root_fallback:
  "(1 / 10 ^ 8 \<le> sphere_disc r c radius
      \<and> (near_root r c radius < tmin r \<or> tmax r < near_root r c radius)
      \<and> tmin r \<le> far_root r c radius \<and> far_root r c radius \<le> tmax r \<longrightarrow>
        fst (intersect_sphere r hit c radius)
        \<and> distance (snd (intersect_sphere r hit c radius)) = far_root r c radius)
   \<and> (dot (vsub (origin r) c) (vsub (origin r) c) < radius * radius \<and> 0 \<le> tmin r
      \<and> (1 / 10 ^ 8 \<le> sphere_disc r c radius \<or> 2 / 10 ^ 4 \<le> tmin r)
      \<and> tmin r \<le> far_root r c radius \<and> far_root r c radius \<le> tmax r \<longrightarrow>
        fst (intersect_sphere r hit c radius)
        \<and> distance (snd (intersect_sphere r hit c radius)) = far_root r c radius)
   \<and> (0 \<le> sphere_disc ar c radius \<and> near_root ar c radius < tmin ar
      \<and> tmin ar \<le> far_root ar c radius \<and> far_root ar c radius \<le> tmax ar
      \<and> far_root ar c radius < h_dist ahit \<longrightarrow>
        h_has_hit (a_intersect_sphere ar ahit c radius ra rd rs sh io ident)
        \<and> h_dist (a_intersect_sphere ar ahit c radius ra rd rs sh io ident)
            = far_root ar c radius)"
proof -
  have inside: "near_root r c radius < tmin r"
    if "dot (vsub (origin r) c) (vsub (origin r) c) < radius * radius" "0 \<le> tmin r"
    using inside_near_root_negative [OF that(1)] that(2) by simp
  have large: "1 / 10 ^ 8 \<le> sphere_disc r c radius"
    if "dot (vsub (origin r) c) (vsub (origin r) c) < radius * radius"
      and "2 / 10 ^ 4 \<le> tmin r" and "tmin r \<le> far_root r c radius"
    using that by (intro inside_disc_large) simp_all
  have w8: "fst (intersect_sphere r hit c radius)
        \<and> distance (snd (intersect_sphere r hit c radius)) = far_root r c radius"
    if "1 / 10 ^ 8 \<le> sphere_disc r c radius"
      and "near_root r c radius < tmin r \<or> tmax r < near_root r c radius"
      and "tmin r \<le> far_root r c radius" and "far_root r c radius \<le> tmax r"
    using intersect_sphere_far [OF that, of hit] by simp
  show ?thesis
    using inside large w8 a_intersect_sphere_far [of ar c radius ahit ra rd rs sh io ident]
    by blast
qed

theorem sphere_far_root_fallback_witness:
  "1 / 10 ^ 8 \<le> sphere_disc centre_ray (Vec3 130 90 250) 90
   \<and> near_root centre_ray (Vec3 130 90 250) 90 < tmin centre_ray
   \<and> tmin centre_ray \<le> far_root centre_ray (Vec3 130 90 250) 90
   \<and> far_root centre_ray (Vec3 130 90 250) 90 \<le> tmax centre_ray
   \<and> dot (vsub (origin centre_ray) (Vec3 130 90 250)) (vsub (origin centre_ray) (Vec3 130 90 250))
       < 90 * 90
   \<and> 0 \<le> tmin centre_ray
   \<and> fst (intersect_sphere centre_ray default_hitinfo (Vec3 130 90 250) 90)
   \<and> distance (snd (intersect_sphere centre_ray default_hitinfo (Vec3 130 90 250) 90)) = 90
   \<and> 0 \<le> sphere_disc aray_in (Vec3 0 (1 / 2) 0) (3 / 10)
   \<and> near_root aray_in (Vec3 0 (1 / 2) 0) (3 / 10) < tmin aray_in
   \<and> far_root aray_in (Vec3 0 (1 / 2) 0) (3 / 10) < h_dist ahit_init
   \<and> h_has_hit (a_intersect_sphere aray_in ahit_init (Vec3 0 (1 / 2) 0) (3 / 10)
                  (splat 0) (splat 0) (splat (1 / 10)) 42 (15 / 10) 4)
   \<and> h_dist (a_intersect_sphere aray_in ahit_init (Vec3 0 (1 / 2) 0) (3 / 10)
                  (splat 0) (splat 0) (splat (1 / 10)) 42 (15 / 10) 4) = 3 / 10"
proof -
  let ?c = "Vec3 130 90 250" and ?a = "Vec3 0 (1 / 2) 0"
  have d: "sphere_disc centre_ray ?c 90 = 8100" and b: "sphere_bhalf centre_ray ?c = 0"
    by (simp_all add: sphere_disc_def sphere_bhalf_def centre_ray_def vec_defs)
  have n: "near_root centre_ray ?c 90 = - 90" and f: "far_root centre_ray ?c 90 = 90"
    by (simp_all add: near_root_def far_root_def d b sqrt_8100)
  have t: "tmin centre_ray = 1 / 10 ^ 3" "tmax centre_ray = 10 ^ 6"
    by (simp_all add: centre_ray_def)
  have i: "dot (vsub (origin centre_ray) ?c) (vsub (origin centre_ray) ?c) < 90 * 90"
    by (simp add: centre_ray_def vec_defs)
  have ad: "sphere_disc aray_in ?a (3 / 10) = 9 / 100" and ab: "sphere_bhalf aray_in ?a = 0"
    by (simp_all add: sphere_disc_def sphere_bhalf_def aray_in_def vec_defs)
  have an: "near_root aray_in ?a (3 / 10) = - (3 / 10)"
    and af: "far_root aray_in ?a (3 / 10) = 3 / 10"
    by (simp_all add: near_root_def far_root_def ad ab sqrt_9_100)
  have at: "tmin aray_in = 1 / 10 ^ 4" "tmax aray_in = 10" "h_dist ahit_init = 10"
    by (simp_all add: aray_in_def ahit_init_def)
  note A = sphere_far_root_fallback [where r = centre_ray and c = ?c and radius = 90
      and hit = default_hitinfo]
  note B = sphere_far_root_fallback [where ar = aray_in and c = ?a and radius = "3 / 10"
      and ahit = ahit_init and ra = "splat 0" and rd = "splat 0" and rs = "splat (1 / 10)"
      and sh = 42 and io = "15 / 10" and ident = 4]
  from A i have "fst (intersect_sphere centre_ray default_hitinfo ?c 90)
      \<and> distance (snd (intersect_sphere centre_ray default_hitinfo ?c 90)) = 90"
    unfolding d n f t by simp
  moreover from B have "h_has_hit (a_intersect_sphere aray_in ahit_init ?a (3 / 10)
                  (splat 0) (splat 0) (splat (1 / 10)) 42 (15 / 10) 4)
   \<and> h_dist (a_intersect_sphere aray_in ahit_init ?a (3 / 10)
                  (splat 0) (splat 0) (splat (1 / 10)) 42 (15 / 10) 4) = 3 / 10"
    unfolding ad an af at by simp
  ultimately show ?thesis
    unfolding d n f t ad an af at using i by simp
qed

text \<open>
  C10.  The claim as stated fails for a ray that starts at the centre of a sphere of radius
  \<open>2^-14\<close>: the discriminant \<open>2^-28\<close> is below \<open>1e-8\<close>, the far root \<open>2^-14\<close> lies in the
  ray interval \<open>[0, 1]\<close>, and \<open>intersect_sphere\<close> reports a miss.
\<close>

theorem sphere_miss_counterexample:
  "dot (vsub (origin graze_ray) (splat 0)) (vsub (origin graze_ray) (splat 0))
     < graze_radius * graze_radius
   \<and> far_root graze_ray (splat 0) graze_radius = 1 / 16384
   \<and> tmin graze_ray \<le> far_root graze_ray (splat 0) graze_radius
   \<and> far_root graze_ray (splat 0) graze_radius \<le> tmax graze_ray
   \<and> intersect_sphere graze_ray default_hitinfo (splat 0) graze_radius
       = (False, default_hitinfo)"
proof -
  have d: "sphere_disc graze_ray (splat 0) graze_radius = 1 / 268435456"
    by (simp add: sphere_disc_def sphere_bhalf_def graze_ray_def graze_radius_def vec_defs)
  have b: "sphere_bhalf graze_ray (splat 0) = 0"
    by (simp add: sphere_bhalf_def graze_ray_def vec_defs)
  have f: "far_root graze_ray (splat 0) graze_radius = 1 / 16384"
    unfolding far_root_def d b sqrt_graze by simp
  have m: "intersect_sphere graze_ray default_hitinfo (splat 0) graze_radius
       = (False, default_hitinfo)"
    by (simp add: intersect_sphere_def Let_def graze_ray_def graze_radius_def vec_defs)
  have i: "dot (vsub (origin graze_ray) (splat 0)) (vsub (origin graze_ray) (splat 0))
     < graze_radius * graze_radius"
    by (simp add: graze_ray_def graze_radius_def vec_defs)
  show ?thesis
    unfolding f using i m by (simp add: graze_ray_def)
qed

end
